theory Spec2Isabelle
  imports Complex_Main "HOL-Library.Sublist"
begin

section \<open>JavaScript values used by the dashboard\<close>

text \<open>
  The dashboard is TypeScript. A \<open>number\<close> that arrives through JSON is modelled as a
  \<open>real\<close>; an optional field (\<open>x?: T\<close>, or a value that may be \<open>null\<close>) is an
  \<open>option\<close>. \<open>parseFloat\<close> can also return \<open>NaN\<close> and the two infinities, so the
  numbers typed into the admin form are a \<open>jsnum\<close>. A string is truthy when it is not
  empty, a number when it is neither \<open>0\<close> nor \<open>NaN\<close>.
\<close>

datatype jsnum = NaN | PosInfinity | NegInfinity | Num real

fun truthy_num :: "jsnum \<Rightarrow> bool" where
  "truthy_num NaN = False"
| "truthy_num PosInfinity = True"
| "truthy_num NegInfinity = True"
| "truthy_num (Num x) = (x \<noteq> 0)"

text \<open>
  A parsed JSON text. The members of an object are kept in the order of the text; when
  a key is repeated, \<open>JSON.parse\<close> keeps the last one. \<open>member_of data key\<close> is
  \<open>data.key\<close> for a value other than \<open>null\<close> (\<open>None\<close> is \<open>undefined\<close>); reading a
  property of \<open>null\<close> throws, which the callers handle before they ask.
\<close>

datatype Json =
    JNull
  | JBool bool
  | JNum real
  | JStr string
  | JArr "Json list"
  | JObj "(string \<times> Json) list"

fun truthy_json :: "Json \<Rightarrow> bool" where
  "truthy_json JNull = False"
| "truthy_json (JBool b) = b"
| "truthy_json (JNum x) = (x \<noteq> 0)"
| "truthy_json (JStr s) = (s \<noteq> [])"
| "truthy_json (JArr xs) = True"
| "truthy_json (JObj kvs) = True"

fun member_of :: "Json \<Rightarrow> string \<Rightarrow> Json option" where
  "member_of (JObj kvs) key = map_of (rev kvs) key"
| "member_of other key = None"

text \<open>\<open>v || d\<close> for a value \<open>v\<close> that may be \<open>undefined\<close>.\<close>

fun or_json :: "Json option \<Rightarrow> Json \<Rightarrow> Json" where
  "or_json None d = d"
| "or_json (Some v) d = (if truthy_json v then v else d)"

text \<open>\<open>JSON.stringify\<close> of a number: \<open>NaN\<close> and the infinities become \<open>null\<close>.\<close>

fun json_of_num :: "jsnum \<Rightarrow> Json" where
  "json_of_num (Num x) = JNum x"
| "json_of_num other = JNull"

text \<open>\<open>s || d\<close> for an optional string \<open>s\<close>.\<close>

fun or_str :: "string option \<Rightarrow> string \<Rightarrow> string" where
  "or_str None d = d"
| "or_str (Some s) d = (if s = [] then d else s)"

text \<open>\<open>s || null\<close> for an optional string \<open>s\<close>.\<close>

fun or_null :: "string option \<Rightarrow> string option" where
  "or_null None = None"
| "or_null (Some s) = (if s = [] then None else Some s)"

text \<open>\<open>x || d\<close> for an optional number \<open>x\<close>.\<close>

fun or_real :: "real option \<Rightarrow> real \<Rightarrow> real" where
  "or_real None d = d"
| "or_real (Some x) d = (if x = 0 then d else x)"

text \<open>\<open>x ?? d\<close> for an optional number \<open>x\<close>.\<close>

fun nullish_real :: "real option \<Rightarrow> real \<Rightarrow> real" where
  "nullish_real None d = d"
| "nullish_real (Some x) d = x"

text \<open>\<open>s.split("_")[0]\<close>: the part of \<open>s\<close> before the first underscore, all of
  \<open>s\<close> when it has none.\<close>

definition split_first :: "string \<Rightarrow> string" where
  "split_first s = takeWhile (\<lambda>c. c \<noteq> CHR ''_'') s"

text \<open>\<open>s.includes(t)\<close>: \<open>t\<close> occurs in \<open>s\<close> as a contiguous substring.\<close>

fun includes_str :: "string \<Rightarrow> string \<Rightarrow> bool" where
  "includes_str [] t = (t = [])"
| "includes_str (c # cs) t = (prefix t (c # cs) \<or> includes_str cs t)"


section \<open>The confidence gauges\<close>

text \<open>
  \<open>ModernConfidenceGauge\<close> (components/ModernConfidenceGauge.tsx). The view records
  every value the component derives from its \<open>confidence\<close> prop; the optional \<open>size\<close>
  prop defaults to 180.
\<close>

record ModernGaugeView =
  clampedConfidence :: real
  mg_radius :: real
  mg_circumference :: real
  mg_progress :: real
  mg_strokeDashoffset :: real
  mg_stroke :: string
  mg_glow :: string
  mg_label :: string
  mg_shown_percent :: real
  row_tecnico :: real
  row_sentimento :: real
  row_macro :: real

definition modern_getColor :: "real \<Rightarrow> string \<times> string" where
  "modern_getColor c =
     (if c \<ge> 70 then (''#22c55e'', ''rgba(34,197,94,0.4)'')
      else if c \<ge> 50 then (''#f59e0b'', ''rgba(245,158,11,0.4)'')
      else (''#64748b'', ''rgba(100,116,139,0.2)''))"

definition modern_getLabel :: "real \<Rightarrow> string" where
  "modern_getLabel c =
     (if c \<ge> 80 then ''Muito Alta''
      else if c \<ge> 60 then ''Alta''
      else if c \<ge> 40 then ''Moderada''
      else ''Baixa'')"

definition ModernConfidenceGauge :: "real \<Rightarrow> real option \<Rightarrow> ModernGaugeView" where
  "ModernConfidenceGauge confidence size_prop =
     (let sz = (case size_prop of None \<Rightarrow> 180 | Some v \<Rightarrow> v);
          clamped = min 100 (max 0 confidence);
          strokeWidth = 12;
          radius = (sz - strokeWidth) / 2;
          circumference = 2 * pi * radius;
          progress = (clamped / 100) * circumference
      in \<lparr> clampedConfidence = clamped,
           mg_radius = radius,
           mg_circumference = circumference,
           mg_progress = progress,
           mg_strokeDashoffset = circumference - progress,
           mg_stroke = fst (modern_getColor clamped),
           mg_glow = snd (modern_getColor clamped),
           mg_label = modern_getLabel clamped,
           mg_shown_percent = clamped,
           row_tecnico = min 100 (clamped + 10),
           row_sentimento = max 0 (clamped - 10),
           row_macro = clamped \<rparr>)"

text \<open>
  \<open>ConfidenceGauge\<close> (the second component of components/AITerminal.tsx), the gauge of
  the first dashboard page. It has no clamping step: every derived value reads the prop.
  The captions are Portuguese; the cedilla and tilde are dropped in the model's strings.
\<close>

record GaugeView =
  cg_stroke :: string
  cg_text :: string
  cg_circumference :: real
  cg_strokeDashoffset :: real
  cg_shown_percent :: real
  cg_caption :: string

definition gauge_getColor :: "real \<Rightarrow> string \<times> string" where
  "gauge_getColor confidence =
     (if confidence \<ge> 80 then (''#10b981'', ''text-emerald-400'')
      else if confidence \<ge> 60 then (''#f59e0b'', ''text-amber-400'')
      else (''#ef4444'', ''text-red-400''))"

definition ConfidenceGauge :: "real \<Rightarrow> GaugeView" where
  "ConfidenceGauge confidence =
     (let color = gauge_getColor confidence;
          circumference = 2 * pi * 45;
          strokeDashoffset = circumference - (confidence / 100) * circumference
      in \<lparr> cg_stroke = fst color,
           cg_text = snd color,
           cg_circumference = circumference,
           cg_strokeDashoffset = strokeDashoffset,
           cg_shown_percent = confidence,
           cg_caption =
             (if confidence \<ge> 80 then ''Alta confianca'' else [])
             @ (if confidence \<ge> 60 \<and> confidence < 80 then ''Confianca moderada'' else [])
             @ (if confidence < 60 then ''Baixa confianca'' else []) \<rparr>)"


section \<open>The reasoning log\<close>

text \<open>
  \<open>ReasoningLog\<close> (third component of src/unnamed/part_003) colours the three agent
  inputs. Each function returns the CSS class the component selects.
\<close>

record TechnicalInput =
  signal :: "string option"

record SentimentInput =
  score :: "real option"

record MacroInput =
  alert :: "string option"

record AnalysisInputs =
  technical :: "TechnicalInput option"
  sentiment :: "SentimentInput option"
  macro :: "MacroInput option"

text \<open>\<open>inputs.technical?.signal\<close>, \<open>inputs.sentiment?.score\<close>, \<open>inputs.macro?.alert\<close>.\<close>

definition technical_signal :: "AnalysisInputs \<Rightarrow> string option" where
  "technical_signal i = (case technical i of None \<Rightarrow> None | Some t \<Rightarrow> signal t)"

definition sentiment_score :: "AnalysisInputs \<Rightarrow> real option" where
  "sentiment_score i = (case sentiment i of None \<Rightarrow> None | Some s \<Rightarrow> score s)"

definition macro_alert :: "AnalysisInputs \<Rightarrow> string option" where
  "macro_alert i = (case macro i of None \<Rightarrow> None | Some m \<Rightarrow> alert m)"

definition technical_class :: "AnalysisInputs \<Rightarrow> string" where
  "technical_class i =
     (if technical_signal i = Some ''BULLISH'' then ''text-emerald-400''
      else if technical_signal i = Some ''BEARISH'' then ''text-red-400''
      else ''text-slate-300'')"

definition sentiment_class :: "AnalysisInputs \<Rightarrow> string" where
  "sentiment_class i =
     (if nullish_real (sentiment_score i) 0 > 0.3 then ''text-emerald-400''
      else if nullish_real (sentiment_score i) 0 < - 0.3 then ''text-red-400''
      else ''text-slate-300'')"

definition macro_class :: "AnalysisInputs \<Rightarrow> string" where
  "macro_class i =
     (if macro_alert i = Some ''LOW_RISK'' then ''text-emerald-400''
      else if macro_alert i = Some ''HIGH_RISK'' then ''text-red-400''
      else ''text-amber-400'')"

text \<open>The classes the technical cell uses for a BULLISH, a BEARISH and any other
  signal name the three directional readings.\<close>

definition bullish_class :: string where
  "bullish_class = technical_class
     \<lparr> technical = Some \<lparr> signal = Some ''BULLISH'' \<rparr>, sentiment = None, macro = None \<rparr>"

definition bearish_class :: string where
  "bearish_class = technical_class
     \<lparr> technical = Some \<lparr> signal = Some ''BEARISH'' \<rparr>, sentiment = None, macro = None \<rparr>"

definition neutral_class :: string where
  "neutral_class = technical_class
     \<lparr> technical = Some \<lparr> signal = Some ''NEUTRAL'' \<rparr>, sentiment = None, macro = None \<rparr>"

text \<open>An input object that carries only a sentiment score.\<close>

definition with_score :: "real option \<Rightarrow> AnalysisInputs" where
  "with_score x = \<lparr> technical = None, sentiment = Some \<lparr> score = x \<rparr>, macro = None \<rparr>"


section \<open>The dashboard page\<close>

text \<open>
  \<open>Dashboard\<close> (app/page.tsx, and its later version src/unnamed/part_005) reads the last
  analysis out of the status object the API returned. Every access is guarded by \<open>?.\<close>,
  so a missing object or field gives \<open>None\<close>.
\<close>

record AnalysisReasoning =
  verdict :: "string option"
  confidence :: "real option"
  inputs :: "AnalysisInputs option"

record ExitLevels =
  take_profit :: "real option"
  stop_loss :: "real option"

record LastAnalysis =
  analysis_id :: string
  pair :: string
  final_decision :: "string option"
  reasoning :: "AnalysisReasoning option"
  market_bias :: "string option"
  exit_levels :: "ExitLevels option"
  created_at :: string

record StatusData =
  engine_active :: bool
  pair :: string
  analysis_interval_minutes :: real
  last_analysis :: "LastAnalysis option"
  timestamp :: string

definition lastAnalysis :: "StatusData option \<Rightarrow> LastAnalysis option" where
  "lastAnalysis status = (case status of None \<Rightarrow> None | Some st \<Rightarrow> last_analysis st)"

definition lastAnalysis_final_decision :: "StatusData option \<Rightarrow> string option" where
  "lastAnalysis_final_decision status =
     (case lastAnalysis status of None \<Rightarrow> None | Some la \<Rightarrow> final_decision la)"

definition lastAnalysis_reasoning :: "StatusData option \<Rightarrow> AnalysisReasoning option" where
  "lastAnalysis_reasoning status =
     (case lastAnalysis status of None \<Rightarrow> None | Some la \<Rightarrow> LastAnalysis.reasoning la)"

definition dashboard_decision :: "StatusData option \<Rightarrow> string option" where
  "dashboard_decision status =
     or_null (map_option split_first (lastAnalysis_final_decision status))"

definition dashboard_direction :: "StatusData option \<Rightarrow> string option" where
  "dashboard_direction status =
     (case lastAnalysis_final_decision status of
        None \<Rightarrow> None
      | Some s \<Rightarrow>
          if includes_str s ''LONG'' then Some ''LONG''
          else if includes_str s ''SHORT'' then Some ''SHORT''
          else None)"

definition dashboard_confidence :: "StatusData option \<Rightarrow> real" where
  "dashboard_confidence status =
     or_real (case lastAnalysis_reasoning status of
                None \<Rightarrow> None
              | Some r \<Rightarrow> AnalysisReasoning.confidence r) 0"

definition dashboard_reasoning :: "StatusData option \<Rightarrow> string option" where
  "dashboard_reasoning status =
     or_null (case lastAnalysis_reasoning status of
                None \<Rightarrow> None
              | Some r \<Rightarrow> AnalysisReasoning.verdict r)"

definition dashboard_inputs :: "StatusData option \<Rightarrow> AnalysisInputs option" where
  "dashboard_inputs status =
     (case lastAnalysis_reasoning status of
        None \<Rightarrow> None
      | Some r \<Rightarrow> AnalysisReasoning.inputs r)"

definition dashboard_marketBias :: "StatusData option \<Rightarrow> string" where
  "dashboard_marketBias status =
     or_str (case lastAnalysis status of None \<Rightarrow> None | Some la \<Rightarrow> LastAnalysis.market_bias la)
       ''Lateralizado''"

text \<open>A status object whose last analysis carries the given decision string and,
  optionally, a reasoning object; the other fields are as the API sends them.\<close>

definition status_with :: "string option \<Rightarrow> AnalysisReasoning option \<Rightarrow> StatusData" where
  "status_with fd r =
     \<lparr> engine_active = True, StatusData.pair = ''EUR/USD'', analysis_interval_minutes = 5,
       last_analysis = Some
         \<lparr> analysis_id = ''a1'', LastAnalysis.pair = ''EUR/USD'', final_decision = fd,
           LastAnalysis.reasoning = r, LastAnalysis.market_bias = None, exit_levels = None,
           created_at = ''2026-01-01T00:00:00Z'' \<rparr>,
       timestamp = ''2026-01-01T00:00:05Z'' \<rparr>"


section \<open>The signal cards\<close>

text \<open>
  \<open>SmartSignalCard\<close> (src/unnamed/part_001; src/unnamed/part_002 restyles it with the
  same conditions). The lower part of the card is either the market-bias panel or the
  three price rows. The props \<open>pair\<close> and \<open>timeframe\<close> are printed as they are and
  take part in no condition; the optional props have the defaults of the source.
\<close>

datatype DetailsPanel =
    MarketBiasPanel string string
  | PricePanel real real real

record SmartSignalCardView =
  headline :: string
  direction_badge :: "string option"
  pulse_background :: bool
  details :: DetailsPanel

fun truthy_str :: "string option \<Rightarrow> bool" where
  "truthy_str None = False"
| "truthy_str (Some s) = (s \<noteq> [])"

definition isHold :: "string option \<Rightarrow> bool" where
  "isHold decision = (\<not> truthy_str decision \<or> decision = Some ''HOLD'')"

definition isBuy :: "string option \<Rightarrow> bool" where
  "isBuy decision = (decision = Some ''BUY'')"

definition isSell :: "string option \<Rightarrow> bool" where
  "isSell decision = (decision = Some ''SELL'')"

definition marketBias_class :: "string \<Rightarrow> string" where
  "marketBias_class marketBias =
     (if marketBias = ''Alta'' then ''text-emerald-400''
      else if marketBias = ''Baixa'' then ''text-red-400''
      else ''text-amber-400'')"

definition SmartSignalCard ::
  "string option \<Rightarrow> string option \<Rightarrow> real option \<Rightarrow> real option \<Rightarrow> real option
     \<Rightarrow> string option \<Rightarrow> SmartSignalCardView" where
  "SmartSignalCard decision direction entryPrice takeProfit stopLoss marketBias =
     (let entry = (case entryPrice of None \<Rightarrow> 1.0850 | Some p \<Rightarrow> p);
          tp = (case takeProfit of None \<Rightarrow> 1.0900 | Some p \<Rightarrow> p);
          sl = (case stopLoss of None \<Rightarrow> 1.0800 | Some p \<Rightarrow> p);
          bias = (case marketBias of None \<Rightarrow> ''Lateralizado'' | Some b \<Rightarrow> b)
      in \<lparr> headline =
             (if isBuy decision then ''BUY'' else if isSell decision then ''SELL'' else ''WAIT''),
           direction_badge =
             (if \<not> isHold decision \<and> truthy_str direction then direction else None),
           pulse_background = (\<not> isHold decision),
           details =
             (if isHold decision then MarketBiasPanel (marketBias_class bias) bias
              else PricePanel entry tp sl) \<rparr>)"

text \<open>The panel is the market-bias panel.\<close>

fun is_market_bias_panel :: "DetailsPanel \<Rightarrow> bool" where
  "is_market_bias_panel (MarketBiasPanel c b) = True"
| "is_market_bias_panel (PricePanel e t s) = False"

text \<open>
  \<open>SignalCard.getCardStyle\<close> (second component of src/unnamed/part_002). The emoji of
  each style is left out of the model.
\<close>

record CardStyle =
  bg :: string
  border :: string
  glow :: string
  label :: string
  sublabel :: string

definition getCardStyle :: "string option \<Rightarrow> CardStyle" where
  "getCardStyle decision =
     (if decision = Some ''BUY'' \<or> decision = Some ''BUY_LONG'' then
        \<lparr> bg = ''from-emerald-500 to-green-600'', border = ''border-emerald-400'',
          glow = ''shadow-emerald-500/50'', label = ''COMPRA'', sublabel = ''LONG'' \<rparr>
      else if decision = Some ''SELL'' \<or> decision = Some ''SELL_SHORT'' then
        \<lparr> bg = ''from-red-500 to-rose-600'', border = ''border-red-400'',
          glow = ''shadow-red-500/50'', label = ''VENDA'', sublabel = ''SHORT'' \<rparr>
      else if decision = Some ''VETO'' then
        \<lparr> bg = ''from-amber-500 to-orange-600'', border = ''border-amber-400'',
          glow = ''shadow-amber-500/50'', label = ''VETO'', sublabel = ''MACRO RISK'' \<rparr>
      else
        \<lparr> bg = ''from-slate-600 to-slate-700'', border = ''border-slate-500'',
          glow = ''shadow-slate-500/30'', label = ''AGUARDANDO'', sublabel = ''HOLD'' \<rparr>)"


section \<open>The signal-history route\<close>

text \<open>
  \<open>GET\<close> of app/api/signal-history/route.ts. The table \<open>execution_log\<close> lives in the
  database; a row's \<open>created_at\<close> is a timestamp, modelled as a number so that the
  database's ordering is the order on \<open>nat\<close>. The \<open>data\<close> column is a JSON object.
\<close>

record TradeData =
  pair :: "string option"
  symbol :: "string option"
  direction :: "string option"
  entry_price :: "real option"
  close_price :: "real option"

record ExecutionLogRow =
  row_id :: string
  created_at :: nat
  row_type :: string
  direction :: "string option"
  status :: string
  profit :: "real option"
  entry_price :: "real option"
  ticket :: "real option"
  data :: "TradeData option"

record TradeResult =
  trade_id :: string
  created_at :: nat
  pair :: string
  direction :: string
  status :: string
  profit :: real
  entry_price :: "real option"
  close_price :: "real option"

text \<open>\<open>a || b\<close> for two optional strings, and for two optional numbers.\<close>

fun or_opt_str :: "string option \<Rightarrow> string option \<Rightarrow> string option" where
  "or_opt_str None b = b"
| "or_opt_str (Some s) b = (if s = [] then b else Some s)"

fun or_opt_real :: "real option \<Rightarrow> real option \<Rightarrow> real option" where
  "or_opt_real None b = b"
| "or_opt_real (Some x) b = (if x = 0 then b else Some x)"

text \<open>\<open>trade.data?.f\<close> for a field \<open>f\<close> of the JSON object.\<close>

definition data_field :: "(TradeData \<Rightarrow> 'a option) \<Rightarrow> ExecutionLogRow \<Rightarrow> 'a option" where
  "data_field f trade = (case data trade of None \<Rightarrow> None | Some d \<Rightarrow> f d)"

text \<open>The object the route builds for one row.\<close>

definition transform_trade :: "ExecutionLogRow \<Rightarrow> TradeResult" where
  "transform_trade trade =
     \<lparr> trade_id = row_id trade,
       TradeResult.created_at = ExecutionLogRow.created_at trade,
       TradeResult.pair =
         or_str (or_opt_str (data_field TradeData.pair trade) (data_field symbol trade))
           ''EUR/USD'',
       TradeResult.direction =
         or_str (or_opt_str (ExecutionLogRow.direction trade)
                   (data_field TradeData.direction trade)) ''LONG'',
       TradeResult.status = ExecutionLogRow.status trade,
       TradeResult.profit = or_real (ExecutionLogRow.profit trade) 0,
       TradeResult.entry_price =
         or_opt_real (ExecutionLogRow.entry_price trade)
           (data_field TradeData.entry_price trade),
       TradeResult.close_price = data_field TradeData.close_price trade \<rparr>"

text \<open>
  The query the route sends: two equality filters, descending order on
  \<open>created_at\<close>, at most ten rows.
\<close>

definition eq_filter :: "(ExecutionLogRow \<Rightarrow> string) \<Rightarrow> string \<Rightarrow> ExecutionLogRow list
    \<Rightarrow> ExecutionLogRow list" where
  "eq_filter column v rows = filter (\<lambda>r. column r = v) rows"

definition order_desc :: "ExecutionLogRow list \<Rightarrow> ExecutionLogRow list" where
  "order_desc rows = rev (sort_key ExecutionLogRow.created_at rows)"

definition limit :: "nat \<Rightarrow> ExecutionLogRow list \<Rightarrow> ExecutionLogRow list" where
  "limit n rows = take n rows"

definition closed_trades_query :: "ExecutionLogRow list \<Rightarrow> ExecutionLogRow list" where
  "closed_trades_query rows =
     limit 10 (order_desc
       (eq_filter ExecutionLogRow.status ''CLOSED'' (eq_filter row_type ''TRADE'' rows)))"

text \<open>
  The database either holds a table, or answers the query with an error object
  (whose message is kept), or the client call throws. The client's answer is the pair
  \<open>{data, error}\<close>.
\<close>

datatype Database = Table "ExecutionLogRow list" | Failing string | Throwing

datatype SupabaseAnswer = Answer "ExecutionLogRow list option" "string option" | Thrown

fun run_query :: "Database \<Rightarrow> SupabaseAnswer" where
  "run_query (Table rows) = Answer (Some (closed_trades_query rows)) None"
| "run_query (Failing message) = Answer None (Some message)"
| "run_query Throwing = Thrown"

datatype ResponseBody = TradesBody "TradeResult list" | ErrorBody string

record Response =
  http_status :: nat
  body :: ResponseBody

definition GET :: "Database \<Rightarrow> Response" where
  "GET db =
     (case run_query db of
        Thrown \<Rightarrow> \<lparr> http_status = 500, body = ErrorBody ''Failed to fetch signal history'' \<rparr>
      | Answer data_rows error \<Rightarrow>
          (case error of
             Some message \<Rightarrow> \<lparr> http_status = 500, body = ErrorBody message \<rparr>
           | None \<Rightarrow>
               \<lparr> http_status = 200,
                 body = TradesBody
                   (map transform_trade (case data_rows of None \<Rightarrow> [] | Some rows \<Rightarrow> rows)) \<rparr>))"

text \<open>The trades array of a response, when it has one.\<close>

fun trades_of :: "Response \<Rightarrow> TradeResult list option" where
  "trades_of r = (case body r of TradesBody ts \<Rightarrow> Some ts | ErrorBody e \<Rightarrow> None)"


section \<open>The trading administration page\<close>

text \<open>
  \<open>TradingDashboardPage\<close> (app/admin/trading/page.tsx). The page holds the edited
  configuration, the configuration last known to be stored (\<open>originalConfig\<close>), and the
  result of the last save. The two risk inputs pass \<open>parseFloat\<close> of the typed text to
  the handlers below, so a handler's argument is a \<open>jsnum\<close>. The messages are
  Portuguese; accents are dropped in the model's strings. A message is kept as a JSON
  value, since the \<open>detail\<close> of a reply is shown whatever its type.
\<close>

datatype TradingMode = AUTOMATIC | SIGNAL_ONLY

record TradingConfig =
  trading_mode :: TradingMode
  risk_per_trade :: jsnum
  max_daily_loss :: jsnum

record TradingPage =
  config :: TradingConfig
  originalConfig :: "TradingConfig option"
  saving :: bool
  saveResult :: "(bool \<times> Json) option"

text \<open>The state the page starts from (\<open>useState\<close>).\<close>

definition initial_page :: TradingPage where
  "initial_page =
     \<lparr> config = \<lparr> trading_mode = SIGNAL_ONLY, risk_per_trade = Num 1.0,
                  max_daily_loss = Num 3.0 \<rparr>,
       originalConfig = None, saving = False, saveResult = None \<rparr>"

text \<open>\<open>fetchConfig\<close> after an ok response carrying \<open>data.config\<close>.\<close>

definition fetchConfig_ok :: "TradingPage \<Rightarrow> TradingConfig \<Rightarrow> TradingPage" where
  "fetchConfig_ok p c = p\<lparr> config := c, originalConfig := Some c \<rparr>"

text \<open>The \<open>onChange\<close> handlers of the slider and of the number field.\<close>

definition onChange_risk_per_trade :: "TradingPage \<Rightarrow> jsnum \<Rightarrow> TradingPage" where
  "onChange_risk_per_trade p parsed = p\<lparr> config := (config p)\<lparr> risk_per_trade := parsed \<rparr> \<rparr>"

definition onChange_max_daily_loss :: "TradingPage \<Rightarrow> jsnum \<Rightarrow> TradingPage" where
  "onChange_max_daily_loss p parsed =
     p\<lparr> config := (config p)\<lparr> max_daily_loss := (if truthy_num parsed then parsed else Num 3) \<rparr> \<rparr>"

text \<open>
  \<open>handleSave\<close> posts \<open>JSON.stringify(config)\<close> and reads the reply. The request
  either fails or brings a response with its \<open>ok\<close> flag and a body, which
  \<open>response.json()\<close> parses before \<open>ok\<close> is looked at (\<open>None\<close> is a body that is not
  JSON). A failed request, an unparsable body and a \<open>null\<close> body of a response that is
  not ok all end in the \<open>catch\<close> block.
\<close>

datatype ApiReply = Response bool "Json option" | NetworkError

fun mode_name :: "TradingMode \<Rightarrow> string" where
  "mode_name AUTOMATIC = ''AUTOMATIC''"
| "mode_name SIGNAL_ONLY = ''SIGNAL_ONLY''"

definition stringify_config :: "TradingConfig \<Rightarrow> Json" where
  "stringify_config c =
     JObj [(''trading_mode'', JStr (mode_name (trading_mode c))),
           (''risk_per_trade'', json_of_num (risk_per_trade c)),
           (''max_daily_loss'', json_of_num (max_daily_loss c))]"

definition post_body :: "TradingPage \<Rightarrow> Json" where
  "post_body p = stringify_config (config p)"

definition save_failed :: "TradingPage \<Rightarrow> TradingPage" where
  "save_failed p =
     p\<lparr> saveResult := Some (False, JStr ''Erro de conexao com a API''), saving := False \<rparr>"

definition handleSave :: "TradingPage \<Rightarrow> ApiReply \<Rightarrow> TradingPage" where
  "handleSave p reply =
     (case reply of
        NetworkError \<Rightarrow> save_failed p
      | Response ok parsed \<Rightarrow>
          (case parsed of
             None \<Rightarrow> save_failed p
           | Some data_json \<Rightarrow>
               if ok then
                 p\<lparr> originalConfig := Some (config p),
                    saveResult := Some (True, JStr ''Configuracoes salvas com sucesso!''),
                    saving := False \<rparr>
               else if data_json = JNull then save_failed p
               else
                 p\<lparr> saveResult :=
                      Some (False, or_json (member_of data_json ''detail'') (JStr ''Erro ao salvar'')),
                    saving := False \<rparr>))"

text \<open>The replies after which the page adopts the edited configuration.\<close>

fun adopted :: "ApiReply \<Rightarrow> bool" where
  "adopted (Response ok (Some data_json)) = ok"
| "adopted other = False"

text \<open>\<open>hasChanges\<close> compares the JSON text of the edited and of the stored
  configuration; the save button is enabled only when they differ.\<close>

definition hasChanges :: "TradingPage \<Rightarrow> bool" where
  "hasChanges p =
     (stringify_config (config p)
        \<noteq> (case originalConfig p of None \<Rightarrow> JNull | Some c \<Rightarrow> stringify_config c))"

text \<open>A percentage lies in the interval \<open>(0, 100]\<close>.\<close>

fun in_percent_range :: "jsnum \<Rightarrow> bool" where
  "in_percent_range (Num x) = (0 < x \<and> x \<le> 100)"
| "in_percent_range other = False"


text \<open>Two rows of \<open>execution_log\<close>: a closed trade whose JSON object names its
  instrument under \<open>symbol\<close> only, and a closed trade with no JSON object at all.\<close>

definition symbol_only_row :: ExecutionLogRow where
  "symbol_only_row =
     \<lparr> row_id = ''t1'', ExecutionLogRow.created_at = 1, row_type = ''TRADE'',
       ExecutionLogRow.direction = Some ''LONG'', ExecutionLogRow.status = ''CLOSED'',
       ExecutionLogRow.profit = None, ExecutionLogRow.entry_price = None, ticket = None,
       data = Some \<lparr> TradeData.pair = None, symbol = Some ''GBP/USD'',
                     TradeData.direction = None, TradeData.entry_price = None,
                     TradeData.close_price = None \<rparr> \<rparr>"

definition bare_row :: ExecutionLogRow where
  "bare_row =
     \<lparr> row_id = ''t2'', ExecutionLogRow.created_at = 2, row_type = ''TRADE'',
       ExecutionLogRow.direction = Some ''SHORT'', ExecutionLogRow.status = ''CLOSED'',
       ExecutionLogRow.profit = None, ExecutionLogRow.entry_price = None, ticket = None,
       data = None \<rparr>"

text \<open>A page that has loaded a stored configuration with a daily loss limit of 5.\<close>

definition loaded_page :: TradingPage where
  "loaded_page = fetchConfig_ok initial_page
     \<lparr> trading_mode = AUTOMATIC, risk_per_trade = Num 1, max_daily_loss = Num 5 \<rparr>"


section \<open>The fusion engine and the execution controller\<close>

text \<open>
  The README (src/unnamed/part_000) places the decision logic in the Python files
  agents/risk_commander.py and core/orchestrator.py. Neither is among the sources, which
  hold the dashboard only. The definitions of this section are therefore written from
  sections 3 and 4 of the specification. What the specification leaves open (the
  thresholds, the ceilings, the base confidence formula, how the lean is mirrored as a
  market bias) is a field of \<open>FusionPolicy\<close>, as its design notes ask.
\<close>

text \<open>Modelled from the spec: the \<open>AgentSignal\<close> of section 3, with the labels the
  dashboard shows for the technical and the macro agent; the Python types are missing.\<close>

datatype Source = TECHNICAL | SENTIMENT | MACRO

datatype Label = BULLISH | BEARISH | NEUTRAL | LOW_RISK | HIGH_RISK

record AgentSignal =
  source :: Source
  label :: Label
  strength :: real
  raw_reasoning :: string
  is_fallback :: bool

text \<open>Modelled from the spec: the \<open>Decision\<close> of section 3; the Python type is
  missing.\<close>

datatype Verdict = ENTRY | HOLD | VETO

datatype Direction = LONG | SHORT

datatype MarketBias = Alta | Baixa | Lateralizado

record Decision =
  verdict :: Verdict
  direction :: "Direction option"
  confidence :: int
  reasoning :: string
  inputs :: "AgentSignal \<times> AgentSignal \<times> AgentSignal"
  market_bias :: MarketBias

text \<open>Modelled from the spec: the directional lean of section 4.2, step 2, and the
  named constants that section 9 asks to expose; the Python constants are missing.\<close>

datatype Lean = Bullish | Bearish | NeutralLean

record FusionPolicy =
  positive_threshold :: real
  negative_threshold :: real
  veto_ceiling :: int
  fallback_ceiling :: int
  base_confidence :: "real \<Rightarrow> real \<Rightarrow> int"
  bias_of_lean :: "Lean \<Rightarrow> Lean \<Rightarrow> MarketBias"

text \<open>Modelled from the spec: the directional reading of the technical label
  (section 4.2, step 2); the Python adapter is missing.\<close>

definition technical_lean :: "AgentSignal \<Rightarrow> Lean" where
  "technical_lean t =
     (if label t = BULLISH then Bullish else if label t = BEARISH then Bearish else NeutralLean)"

text \<open>Modelled from the spec: the directional reading of the sentiment strength
  against the two thresholds (section 4.2, step 2); the Python adapter is missing.\<close>

definition sentiment_lean :: "FusionPolicy \<Rightarrow> AgentSignal \<Rightarrow> Lean" where
  "sentiment_lean k s =
     (if strength s > positive_threshold k then Bullish
      else if strength s < negative_threshold k then Bearish
      else NeutralLean)"

text \<open>Modelled from the spec: the fallback cap and the clamp of section 4.2, step 3;
  the Python confidence scoring is missing.\<close>

definition score_confidence ::
  "FusionPolicy \<Rightarrow> AgentSignal \<Rightarrow> AgentSignal \<Rightarrow> AgentSignal \<Rightarrow> int \<Rightarrow> int" where
  "score_confidence k t s m raw =
     (let capped = (if is_fallback t \<or> is_fallback s \<or> is_fallback m
                    then min raw (fallback_ceiling k) else raw)
      in max 0 (min 100 capped))"

text \<open>Modelled from the spec: the name of a label as the reasoning text prints it.\<close>

fun label_name :: "Label \<Rightarrow> string" where
  "label_name BULLISH = ''BULLISH''"
| "label_name BEARISH = ''BEARISH''"
| "label_name NEUTRAL = ''NEUTRAL''"
| "label_name LOW_RISK = ''LOW_RISK''"
| "label_name HIGH_RISK = ''HIGH_RISK''"

text \<open>Modelled from the spec: the reasoning template of section 4.2, step 5, which
  names the rule that fired and the three input labels; the Python template is missing.\<close>

definition reasoning_text :: "string \<Rightarrow> AgentSignal \<Rightarrow> AgentSignal \<Rightarrow> AgentSignal \<Rightarrow> string" where
  "reasoning_text rule t s m =
     rule @ '': technical='' @ label_name (label t)
          @ '', sentiment='' @ label_name (label s)
          @ '', macro='' @ label_name (label m)"

text \<open>Modelled from the spec: \<open>fuse(technical, sentiment, macro)\<close> of section 4.2, the
  function of agents/risk_commander.py, which is missing. Rule 1 is the macro veto, rule
  2 the directional agreement, rule 3 the confidence, rule 4 the market bias.\<close>

definition fuse :: "FusionPolicy \<Rightarrow> AgentSignal \<Rightarrow> AgentSignal \<Rightarrow> AgentSignal \<Rightarrow> Decision" where
  "fuse k t s m =
     (let tl = technical_lean t;
          sl = sentiment_lean k s;
          bias = bias_of_lean k tl sl
      in if label m = HIGH_RISK then
           \<lparr> verdict = VETO, direction = None,
             confidence = score_confidence k t s m (veto_ceiling k),
             reasoning = reasoning_text ''macro veto'' t s m,
             inputs = (t, s, m), market_bias = bias \<rparr>
         else if tl = sl \<and> tl \<noteq> NeutralLean then
           \<lparr> verdict = ENTRY,
             direction = Some (if tl = Bullish then LONG else SHORT),
             confidence = score_confidence k t s m (base_confidence k (strength t) (strength s)),
             reasoning = reasoning_text ''directional agreement'' t s m,
             inputs = (t, s, m), market_bias = bias \<rparr>
         else
           \<lparr> verdict = HOLD, direction = None,
             confidence = score_confidence k t s m (base_confidence k (strength t) (strength s)),
             reasoning = reasoning_text ''no agreement'' t s m,
             inputs = (t, s, m), market_bias = bias \<rparr>)"

text \<open>Modelled from the spec: \<open>TradingConfig\<close>, \<open>AccountState\<close> and
  \<open>ExecutionRecord\<close> of section 3, and the order of the broker contract of section 6;
  the Python types are missing. The configuration is named \<open>TradingConfig_core\<close> here,
  since \<open>TradingConfig\<close> is the form state of the administration page.\<close>

record TradingConfig_core =
  mode :: TradingMode
  risk_per_trade_pct :: real
  max_daily_loss_pct :: real

datatype AccountMode = LIVE | SIMULATION

record AccountState =
  balance :: real
  equity :: real
  daily_pnl :: real
  daily_pnl_pct :: real
  open_positions_count :: nat
  account_mode :: AccountMode

datatype ExecutionStatus = OPEN | CLOSED | FAILED

record ExecutionRecord =
  record_id :: nat
  ticket :: nat
  symbol :: string
  direction :: "Direction option"
  volume :: real
  entry_price :: real
  stop_loss :: real
  take_profit :: real
  profit :: real
  status :: ExecutionStatus
  mode :: AccountMode
  created_at :: nat

record Order =
  symbol :: string
  direction :: Direction
  volume :: real
  stop_loss :: real
  take_profit :: real

text \<open>Modelled from the spec: what the execution controller reads besides its three
  arguments (section 4.4, steps 4 and 5), the values the missing Python code takes from
  its environment: the
  instrument and its current price, the configured exit distances, the identifier and
  the time for the next record, and the ticket a simulated order gets.\<close>

record ExecutionContext =
  ctx_symbol :: string
  price :: real
  stop_distance :: real
  take_distance :: real
  next_id :: nat
  synthetic_ticket :: nat
  now :: nat

text \<open>Modelled from the spec: the broker collaborator of section 6. It answers an
  order with a ticket or refuses it; \<open>None\<close> is a broker that cannot be reached. The
  outcome of \<open>execute\<close> holds the record, the orders handed to the broker, and the two
  flags of the forced hold.\<close>

datatype BrokerReply = Accepted nat | Refused

record ExecutionOutcome =
  execution_record :: "ExecutionRecord option"
  submitted :: "Order list"
  forced_hold :: bool
  automation_paused :: bool

text \<open>Modelled from the spec: the daily-loss circuit breaker, gate 3 of section 4.4;
  the Python execution controller is missing.\<close>

definition breaker_tripped :: "TradingConfig_core \<Rightarrow> AccountState \<Rightarrow> bool" where
  "breaker_tripped cfg account = (daily_pnl_pct account \<le> - max_daily_loss_pct cfg)"

text \<open>Modelled from the spec: the outcome of a gate that returns null.\<close>

definition no_execution :: ExecutionOutcome where
  "no_execution =
     \<lparr> execution_record = None, submitted = [], forced_hold = False, automation_paused = False \<rparr>"

text \<open>Modelled from the spec: \<open>execute(decision, config, account)\<close> of section 4.4, the
  gate sequence of the Python execution controller, which is missing. Gates 1 to 3
  return without a record; steps 4 to 6 size the position, hand the order to the broker
  and always build a record.\<close>

definition execute ::
  "Decision \<Rightarrow> TradingConfig_core \<Rightarrow> AccountState \<Rightarrow> ExecutionContext
     \<Rightarrow> (Order \<Rightarrow> BrokerReply option) \<Rightarrow> ExecutionOutcome" where
  "execute decision cfg account ctx broker =
     (if TradingConfig_core.mode cfg \<noteq> AUTOMATIC then no_execution
      else if Decision.verdict decision \<noteq> ENTRY then no_execution
      else if breaker_tripped cfg account then
        no_execution\<lparr> forced_hold := True, automation_paused := True \<rparr>
      else
        (let entry = price ctx;
             long = (Decision.direction decision = Some LONG);
             sl = (if long then entry - stop_distance ctx else entry + stop_distance ctx);
             tp = (if long then entry + take_distance ctx else entry - take_distance ctx);
             risk_amount = balance account * risk_per_trade_pct cfg / 100;
             vol = risk_amount / \<bar>entry - sl\<bar>;
             rec = \<lparr> record_id = next_id ctx, ticket = 0, ExecutionRecord.symbol = ctx_symbol ctx,
                     ExecutionRecord.direction = Decision.direction decision,
                     ExecutionRecord.volume = vol, entry_price = entry,
                     ExecutionRecord.stop_loss = sl, ExecutionRecord.take_profit = tp,
                     profit = 0, status = FAILED, mode = LIVE, created_at = now ctx \<rparr>
         in case Decision.direction decision of
              None \<Rightarrow> no_execution\<lparr> execution_record := Some rec \<rparr>
            | Some dir \<Rightarrow>
                (let order = \<lparr> Order.symbol = ctx_symbol ctx, Order.direction = dir,
                               Order.volume = vol, Order.stop_loss = sl,
                               Order.take_profit = tp \<rparr>
                 in case broker order of
                      None \<Rightarrow>
                        no_execution\<lparr> execution_record :=
                          Some (rec\<lparr> ticket := synthetic_ticket ctx, status := OPEN,
                                     mode := SIMULATION \<rparr>) \<rparr>
                    | Some (Accepted tk) \<Rightarrow>
                        no_execution\<lparr> execution_record :=
                                        Some (rec\<lparr> ticket := tk, status := OPEN \<rparr>),
                                      submitted := [order] \<rparr>
                    | Some Refused \<Rightarrow>
                        no_execution\<lparr> execution_record := Some rec,
                                      submitted := [order] \<rparr>)))"

text \<open>Modelled from the spec: the append-only history of section 6, the decisions and
  the execution records written so far, and the paused flag; the data store is missing.\<close>

record History =
  decisions :: "Decision list"
  executions :: "ExecutionRecord list"
  paused :: bool

text \<open>Modelled from the spec: one cycle of section 4.3 from the joined signals on
  (FUSING, DECIDED, EXECUTING, COMPLETE); core/orchestrator.py is missing. The decision
  is written before execution is attempted.\<close>

definition run_cycle ::
  "FusionPolicy \<Rightarrow> TradingConfig_core \<Rightarrow> AccountState \<Rightarrow> ExecutionContext
     \<Rightarrow> (Order \<Rightarrow> BrokerReply option)
     \<Rightarrow> AgentSignal \<Rightarrow> AgentSignal \<Rightarrow> AgentSignal \<Rightarrow> History \<Rightarrow> History" where
  "run_cycle k cfg account ctx broker t s m h =
     (let decision = fuse k t s m;
          decided = h\<lparr> decisions := decisions h @ [decision] \<rparr>;
          outcome = (if Decision.verdict decision = ENTRY
                     then execute decision cfg account ctx broker else no_execution)
      in decided\<lparr> executions :=
                    executions decided @
                      (case execution_record outcome of None \<Rightarrow> [] | Some r \<Rightarrow> [r]),
                  paused := (paused decided \<or> automation_paused outcome) \<rparr>)"


text \<open>Concrete inputs for the core: a policy with the thresholds the dashboard uses
  and a veto ceiling of 30, signals without fallback, an automatic configuration with a
  daily loss limit of 3 percent, an account exactly at that limit and one above it, and
  a broker that accepts every order.\<close>

definition policy30 :: FusionPolicy where
  "policy30 =
     \<lparr> positive_threshold = 0.3, negative_threshold = - 0.3, veto_ceiling = 30,
       fallback_ceiling = 50,
       base_confidence = (\<lambda>a b. \<lfloor>50 * (\<bar>a\<bar> + \<bar>b\<bar>)\<rfloor>),
       bias_of_lean = (\<lambda>tl sl. if tl = Bullish then Alta
                                else if tl = Bearish then Baixa else Lateralizado) \<rparr>"

definition agent_signal :: "Source \<Rightarrow> Label \<Rightarrow> real \<Rightarrow> AgentSignal" where
  "agent_signal src l x =
     \<lparr> source = src, label = l, strength = x, raw_reasoning = [], is_fallback = False \<rparr>"

definition automatic3 :: TradingConfig_core where
  "automatic3 =
     \<lparr> TradingConfig_core.mode = AUTOMATIC, risk_per_trade_pct = 1, max_daily_loss_pct = 3 \<rparr>"

definition account_at :: "real \<Rightarrow> AccountState" where
  "account_at pnl_pct =
     \<lparr> balance = 10000, equity = 10000, daily_pnl = 100 * pnl_pct, daily_pnl_pct = pnl_pct,
       open_positions_count = 0, account_mode = LIVE \<rparr>"

definition eurusd_context :: ExecutionContext where
  "eurusd_context =
     \<lparr> ctx_symbol = ''EURUSD'', price = 1.085, stop_distance = 0.005, take_distance = 0.005,
       next_id = 1, synthetic_ticket = 900001, now = 1000 \<rparr>"

definition accepting_broker :: "Order \<Rightarrow> BrokerReply option" where
  "accepting_broker order = Some (Accepted 7001)"

definition empty_history :: History where
  "empty_history = \<lparr> decisions = [], executions = [], paused = False \<rparr>"


section \<open>The configuration boundary\<close>

text \<open>
  The page posts to \<open>/admin/trading\<close> of the Python API, which is not among the
  sources either. What the API does with the posted JSON is written from section 6 of
  the specification.
\<close>

text \<open>Modelled from the spec: a posted percentage is accepted when it is a number in
  \<open>(0, 100]\<close> (section 6, configuration surface); the Python validator is missing.\<close>

fun percent_of :: "Json option \<Rightarrow> real option" where
  "percent_of (Some (JNum x)) = (if 0 < x \<and> x \<le> 100 then Some x else None)"
| "percent_of other = None"

text \<open>Modelled from the spec: a posted mode is one of the two modes of
  \<open>TradingConfig\<close> (section 3); the Python validator is missing.\<close>

fun mode_of :: "Json option \<Rightarrow> TradingMode option" where
  "mode_of (Some (JStr name)) =
     (if name = ''AUTOMATIC'' then Some AUTOMATIC
      else if name = ''SIGNAL_ONLY'' then Some SIGNAL_ONLY
      else None)"
| "mode_of other = None"

text \<open>Modelled from the spec: the set operation of the configuration surface
  (sections 6 and 7e), the handler of \<open>POST /admin/trading\<close>, which is missing. A valid
  update replaces the stored configuration and is answered ok; an invalid one is
  rejected with a \<open>detail\<close> and leaves the stored configuration as it is. Nothing is
  clamped and no default is filled in.\<close>

definition update_config :: "TradingConfig_core \<Rightarrow> Json \<Rightarrow> TradingConfig_core \<times> ApiReply" where
  "update_config stored posted =
     (case mode_of (member_of posted ''trading_mode'') of
        None \<Rightarrow> (stored, Response False (Some (JObj [(''detail'', JStr ''invalid trading_mode'')])))
      | Some new_mode \<Rightarrow>
          (case percent_of (member_of posted ''risk_per_trade'') of
             None \<Rightarrow>
               (stored, Response False
                  (Some (JObj [(''detail'', JStr ''risk_per_trade must be in (0, 100]'')])))
           | Some risk \<Rightarrow>
               (case percent_of (member_of posted ''max_daily_loss'') of
                  None \<Rightarrow>
                    (stored, Response False
                       (Some (JObj [(''detail'', JStr ''max_daily_loss must be in (0, 100]'')])))
                | Some loss \<Rightarrow>
                    (\<lparr> TradingConfig_core.mode = new_mode, risk_per_trade_pct = risk,
                       max_daily_loss_pct = loss \<rparr>,
                     Response True (Some (JObj [(''status'', JStr ''ok'')]))))))"

text \<open>A save from the page against the API: the page after \<open>handleSave\<close> has read
  the API's reply to the posted body, and the configuration the API stores then.\<close>

definition save_config :: "TradingPage \<Rightarrow> TradingConfig_core \<Rightarrow> TradingPage \<times> TradingConfig_core" where
  "save_config p stored =
     (let answer = update_config stored (post_body p)
      in (handleSave p (snd answer), fst answer))"

text \<open>The stored configuration that \<open>loaded_page\<close> has loaded.\<close>

definition stored5 :: TradingConfig_core where
  "stored5 =
     \<lparr> TradingConfig_core.mode = AUTOMATIC, risk_per_trade_pct = 1, max_daily_loss_pct = 5 \<rparr>"

section \<open>Properties of the confidence gauges\<close>

lemma ModernConfidenceGauge_clamps:
  "clampedConfidence (ModernConfidenceGauge c sz) = min 100 (max 0 c) \<and>
   mg_shown_percent (ModernConfidenceGauge c sz) = min 100 (max 0 c) \<and>
   row_macro (ModernConfidenceGauge c sz) = min 100 (max 0 c) \<and>
   mg_progress (ModernConfidenceGauge c sz)
     = (min 100 (max 0 c) / 100) * mg_circumference (ModernConfidenceGauge c sz) \<and>
   0 \<le> clampedConfidence (ModernConfidenceGauge c sz) \<and>
   clampedConfidence (ModernConfidenceGauge c sz) \<le> 100"
  by (simp add: ModernConfidenceGauge_def Let_def)

lemma ConfidenceGauge_reads_prop:
  "cg_shown_percent (ConfidenceGauge c) = c \<and>
   cg_strokeDashoffset (ConfidenceGauge c) = 2 * pi * 45 - (c / 100) * (2 * pi * 45)"
  by (simp add: ConfidenceGauge_def Let_def)

text \<open>
  C6. The claim: the value a confidence gauge renders is \<open>min 100 (max 0 confidence)\<close>.
  \<open>ModernConfidenceGauge\<close> does so (lemma \<open>ModernConfidenceGauge_clamps\<close>).
  \<open>ConfidenceGauge\<close> does not: for the prop 150 it prints 150 percent and draws the arc
  with a negative dash offset, and for the prop -20 it prints -20 percent, where the
  modern gauge shows 100 and 0.
\<close>

theorem ConfidenceGauge_not_clamped:
  "cg_shown_percent (ConfidenceGauge 150) = 150 \<and>
   cg_shown_percent (ConfidenceGauge 150) \<noteq> min 100 (max 0 150) \<and>
   cg_strokeDashoffset (ConfidenceGauge 150) < 0 \<and>
   cg_shown_percent (ConfidenceGauge (- 20)) = - 20 \<and>
   clampedConfidence (ModernConfidenceGauge 150 None) = 100 \<and>
   clampedConfidence (ModernConfidenceGauge (- 20) None) = 0"
  by (simp add: ConfidenceGauge_def ModernConfidenceGauge_def Let_def)


section \<open>Properties of the reasoning log\<close>

lemma class_names:
  "bullish_class = ''text-emerald-400''"
  "bearish_class = ''text-red-400''"
  "neutral_class = ''text-slate-300''"
  by (simp_all add: bullish_class_def bearish_class_def neutral_class_def
      technical_class_def technical_signal_def)

text \<open>
  C7. The sentiment cell of the reasoning log reads the score, or 0 when there is none.
  It takes the bullish colour exactly when that score is greater than 0.3, the bearish
  colour exactly when it is less than -0.3, and the neutral colour exactly when it lies
  between the two thresholds, both included.
\<close>

theorem sentiment_threshold_mapping:
  "(sentiment_class i = bullish_class \<longleftrightarrow> nullish_real (sentiment_score i) 0 > 0.3) \<and>
   (sentiment_class i = bearish_class \<longleftrightarrow> nullish_real (sentiment_score i) 0 < - 0.3) \<and>
   (sentiment_class i = neutral_class \<longleftrightarrow>
      - 0.3 \<le> nullish_real (sentiment_score i) 0 \<and> nullish_real (sentiment_score i) 0 \<le> 0.3)"
  by (auto simp: sentiment_class_def class_names)

text \<open>The mapping at a score above, at and below the thresholds, and without a score.\<close>

theorem sentiment_threshold_mapping_witness:
  "sentiment_class (with_score (Some 0.5)) = bullish_class \<and>
   sentiment_class (with_score (Some 0.3)) = neutral_class \<and>
   sentiment_class (with_score (Some (- 0.3))) = neutral_class \<and>
   sentiment_class (with_score (Some (- 0.31))) = bearish_class \<and>
   sentiment_class (with_score None) = neutral_class"
  using sentiment_threshold_mapping [of "with_score (Some 0.5)"]
    sentiment_threshold_mapping [of "with_score (Some 0.3)"]
    sentiment_threshold_mapping [of "with_score (Some (- 0.3))"]
    sentiment_threshold_mapping [of "with_score (Some (- 0.31))"]
    sentiment_threshold_mapping [of "with_score None"]
  by (simp add: with_score_def sentiment_score_def)


section \<open>Properties of the signal card\<close>

lemma isHold_iff:
  "isHold decision \<longleftrightarrow> decision = None \<or> decision = Some [] \<or> decision = Some ''HOLD''"
  by (cases decision) (auto simp: isHold_def)

lemma getCardStyle_veto:
  "CardStyle.label (getCardStyle (Some ''VETO'')) = ''VETO'' \<and>
   sublabel (getCardStyle (Some ''VETO'')) = ''MACRO RISK''"
  by (simp add: getCardStyle_def)

text \<open>
  C8, as stated: the market-bias panel is rendered if and only if the decision is null
  or \<open>HOLD\<close>. The empty string is a decision that is neither, and the card renders the
  market-bias panel for it, because \<open>!decision\<close> holds for the empty string too.
\<close>

theorem market_bias_panel_counterexample:
  "\<not> (is_market_bias_panel (details (SmartSignalCard (Some []) None None None None None))
        \<longleftrightarrow> (Some [] = (None :: string option) \<or> Some [] = Some ''HOLD''))"
  by (simp add: SmartSignalCard_def isHold_def Let_def)

text \<open>
  C8, amended: the signal card renders the market-bias panel if and only if the
  decision is null, the empty string or \<open>HOLD\<close>; for every other decision value,
  \<open>VETO\<close> included, it renders the entry, take-profit and stop-loss prices.
\<close>

theorem market_bias_panel_iff_hold:
  "(is_market_bias_panel (details (SmartSignalCard decision dirn e t s b))
      \<longleftrightarrow> decision = None \<or> decision = Some [] \<or> decision = Some ''HOLD'') \<and>
   (decision \<noteq> None \<and> decision \<noteq> Some [] \<and> decision \<noteq> Some ''HOLD'' \<longrightarrow>
      details (SmartSignalCard decision dirn e t s b)
        = PricePanel (case e of None \<Rightarrow> 1.0850 | Some p \<Rightarrow> p)
                     (case t of None \<Rightarrow> 1.0900 | Some p \<Rightarrow> p)
                     (case s of None \<Rightarrow> 1.0800 | Some p \<Rightarrow> p))"
  by (simp add: SmartSignalCard_def Let_def isHold_iff)

text \<open>The card for \<open>VETO\<close>, for \<open>HOLD\<close> and for no decision.\<close>

theorem market_bias_panel_iff_hold_witness:
  "details (SmartSignalCard (Some ''VETO'') None (Some 1.085) (Some 1.09) (Some 1.08)
      (Some ''Alta'')) = PricePanel 1.085 1.09 1.08 \<and>
   \<not> is_market_bias_panel (details (SmartSignalCard (Some ''VETO'') None (Some 1.085)
      (Some 1.09) (Some 1.08) (Some ''Alta''))) \<and>
   is_market_bias_panel (details (SmartSignalCard (Some ''HOLD'') None (Some 1.085)
      (Some 1.09) (Some 1.08) (Some ''Alta''))) \<and>
   is_market_bias_panel (details (SmartSignalCard None None (Some 1.085)
      (Some 1.09) (Some 1.08) (Some ''Alta'')))"
  using market_bias_panel_iff_hold [of "Some ''VETO''" None "Some 1.085" "Some 1.09"
      "Some 1.08" "Some ''Alta''"]
    market_bias_panel_iff_hold [of "Some ''HOLD''" None "Some 1.085" "Some 1.09"
      "Some 1.08" "Some ''Alta''"]
    market_bias_panel_iff_hold [of None None "Some 1.085" "Some 1.09"
      "Some 1.08" "Some ''Alta''"]
  by simp


section \<open>Properties of the dashboard page\<close>

lemma includes_str_sublist: "includes_str s t \<longleftrightarrow> sublist t s"
  by (induction s) (simp_all add: sublist_Cons_right)

lemma includes_str_iff: "includes_str s t \<longleftrightarrow> (\<exists>pre post. s = pre @ t @ post)"
  by (simp add: includes_str_sublist sublist_def)

lemma split_first_decomp:
  "\<exists>rest. s = split_first s @ rest \<and> CHR ''_'' \<notin> set (split_first s)
      \<and> (rest = [] \<or> hd rest = CHR ''_'')"
proof -
  let ?P = "\<lambda>c. c \<noteq> CHR ''_''"
  have a: "s = split_first s @ dropWhile ?P s"
    by (simp add: split_first_def)
  have b: "CHR ''_'' \<notin> set (split_first s)"
    unfolding split_first_def using set_takeWhileD by fastforce
  have c: "dropWhile ?P s = [] \<or> hd (dropWhile ?P s) = CHR ''_''"
    using hd_dropWhile [of ?P s] by auto
  from a b c show ?thesis by blast
qed

lemma split_first_empty: "split_first s = [] \<longleftrightarrow> s = [] \<or> hd s = CHR ''_''"
  by (cases s) (auto simp: split_first_def)

text \<open>
  C9, as stated: for a decision string \<open>s\<close> the displayed decision is the prefix of \<open>s\<close>
  before the first underscore, and null only when \<open>s\<close> is empty or absent. The string
  \<open>_LONG\<close> is not empty, its prefix before the first underscore is the empty string, and
  the page displays null, not that prefix.
\<close>

theorem decision_prefix_counterexample:
  "lastAnalysis_final_decision (Some (status_with (Some ''_LONG'') None)) = Some ''_LONG'' \<and>
   ''_LONG'' \<noteq> [] \<and>
   dashboard_decision (Some (status_with (Some ''_LONG'') None)) = None \<and>
   dashboard_decision (Some (status_with (Some ''_LONG'') None))
     \<noteq> Some (takeWhile (\<lambda>c. c \<noteq> CHR ''_'') ''_LONG'')"
  by (simp add: dashboard_decision_def lastAnalysis_final_decision_def lastAnalysis_def
      status_with_def split_first_def)

text \<open>
  C9, amended: for every last analysis whose \<open>final_decision\<close> is a string \<open>s\<close>, the
  displayed decision is the prefix of \<open>s\<close> before the first underscore when that prefix
  is not empty, and null when it is empty, that is when \<open>s\<close> is empty or begins with an
  underscore; the displayed direction is \<open>LONG\<close> exactly when \<open>s\<close> contains \<open>LONG\<close>,
  else \<open>SHORT\<close> exactly when \<open>s\<close> contains \<open>SHORT\<close>, else null. With no
  \<open>final_decision\<close> both are null. A missing \<open>reasoning.confidence\<close> is rendered as 0.
\<close>

theorem dashboard_decision_parsing:
  "(lastAnalysis_final_decision st = Some s \<longrightarrow>
      (\<exists>rest. s = split_first s @ rest \<and> CHR ''_'' \<notin> set (split_first s)
          \<and> (rest = [] \<or> hd rest = CHR ''_'')) \<and>
      dashboard_decision st
        = (if s = [] \<or> hd s = CHR ''_'' then None else Some (split_first s)) \<and>
      (dashboard_direction st = Some ''LONG''
         \<longleftrightarrow> (\<exists>pre post. s = pre @ ''LONG'' @ post)) \<and>
      (dashboard_direction st = Some ''SHORT''
         \<longleftrightarrow> (\<nexists>pre post. s = pre @ ''LONG'' @ post) \<and> (\<exists>pre post. s = pre @ ''SHORT'' @ post)) \<and>
      (dashboard_direction st = None
         \<longleftrightarrow> (\<nexists>pre post. s = pre @ ''LONG'' @ post) \<and> (\<nexists>pre post. s = pre @ ''SHORT'' @ post))) \<and>
   (lastAnalysis_final_decision st = None \<longrightarrow>
      dashboard_decision st = None \<and> dashboard_direction st = None) \<and>
   ((lastAnalysis_reasoning st = None
       \<or> (\<exists>r. lastAnalysis_reasoning st = Some r \<and> AnalysisReasoning.confidence r = None))
      \<longrightarrow> dashboard_confidence st = 0)"
proof (intro conjI impI)
  assume fd: "lastAnalysis_final_decision st = Some s"
  show "\<exists>rest. s = split_first s @ rest \<and> CHR ''_'' \<notin> set (split_first s)
          \<and> (rest = [] \<or> hd rest = CHR ''_'')"
    by (rule split_first_decomp)
  show "dashboard_decision st
        = (if s = [] \<or> hd s = CHR ''_'' then None else Some (split_first s))"
    using split_first_empty [of s] by (simp add: dashboard_decision_def fd)
  show "dashboard_direction st = Some ''LONG''
         \<longleftrightarrow> (\<exists>pre post. s = pre @ ''LONG'' @ post)"
    using includes_str_iff [of s "''LONG''"] includes_str_iff [of s "''SHORT''"]
    by (simp add: dashboard_direction_def fd)
  show "dashboard_direction st = Some ''SHORT''
         \<longleftrightarrow> (\<nexists>pre post. s = pre @ ''LONG'' @ post) \<and> (\<exists>pre post. s = pre @ ''SHORT'' @ post)"
    using includes_str_iff [of s "''LONG''"] includes_str_iff [of s "''SHORT''"]
    by (simp add: dashboard_direction_def fd)
  show "dashboard_direction st = None
         \<longleftrightarrow> (\<nexists>pre post. s = pre @ ''LONG'' @ post) \<and> (\<nexists>pre post. s = pre @ ''SHORT'' @ post)"
    using includes_str_iff [of s "''LONG''"] includes_str_iff [of s "''SHORT''"]
    by (simp add: dashboard_direction_def fd)
next
  assume "lastAnalysis_final_decision st = None"
  then show "dashboard_decision st = None" "dashboard_direction st = None"
    by (simp_all add: dashboard_decision_def dashboard_direction_def)
next
  assume "lastAnalysis_reasoning st = None
       \<or> (\<exists>r. lastAnalysis_reasoning st = Some r \<and> AnalysisReasoning.confidence r = None)"
  then show "dashboard_confidence st = 0"
    by (auto simp: dashboard_confidence_def)
qed

text \<open>The page for the decision string \<open>BUY_LONG\<close> and no reasoning object.\<close>

theorem dashboard_decision_parsing_witness:
  "dashboard_decision (Some (status_with (Some ''BUY_LONG'') None)) = Some ''BUY'' \<and>
   dashboard_direction (Some (status_with (Some ''BUY_LONG'') None)) = Some ''LONG'' \<and>
   dashboard_confidence (Some (status_with (Some ''BUY_LONG'') None)) = 0"
proof -
  let ?st = "Some (status_with (Some ''BUY_LONG'') None)"
  have fd: "lastAnalysis_final_decision ?st = Some ''BUY_LONG''"
    by (simp add: lastAnalysis_final_decision_def lastAnalysis_def status_with_def)
  have r: "lastAnalysis_reasoning ?st = None"
    by (simp add: lastAnalysis_reasoning_def lastAnalysis_def status_with_def)
  have "''BUY_LONG'' = ''BUY_'' @ ''LONG'' @ []" by simp
  then have ex: "\<exists>pre post. ''BUY_LONG'' = pre @ ''LONG'' @ post" by blast
  have sf: "split_first ''BUY_LONG'' = ''BUY''" by (simp add: split_first_def)
  from dashboard_decision_parsing [of ?st "''BUY_LONG''"] fd r ex sf
  show ?thesis by simp
qed


section \<open>Properties of the signal-history route\<close>

lemma closed_trades_query_set:
  "r \<in> set (closed_trades_query rows) \<Longrightarrow>
     r \<in> set rows \<and> row_type r = ''TRADE'' \<and> ExecutionLogRow.status r = ''CLOSED''"
  unfolding closed_trades_query_def limit_def order_desc_def eq_filter_def
  by (auto dest!: in_set_takeD)

lemma closed_trades_query_length:
  "length (closed_trades_query rows)
     = min 10 (length (filter
         (\<lambda>r. row_type r = ''TRADE'' \<and> ExecutionLogRow.status r = ''CLOSED'') rows))"
  unfolding closed_trades_query_def limit_def order_desc_def eq_filter_def
  by (simp add: min.commute conj_commute)

lemma order_desc_sorted:
  "sorted_wrt (\<lambda>a b. a \<ge> b) (map ExecutionLogRow.created_at (order_desc rows))"
proof -
  have "sorted (map ExecutionLogRow.created_at (sort_key ExecutionLogRow.created_at rows))"
    by (rule sorted_sort_key)
  then show ?thesis
    unfolding order_desc_def by (simp add: rev_map [symmetric] sorted_wrt_rev)
qed

lemma closed_trades_query_sorted:
  "sorted_wrt (\<lambda>a b. a \<ge> b) (map ExecutionLogRow.created_at (closed_trades_query rows))"
  unfolding closed_trades_query_def limit_def
  by (simp add: take_map [symmetric] sorted_wrt_take order_desc_sorted)

lemma transform_trade_created_at:
  "map TradeResult.created_at (map transform_trade rs) = map ExecutionLogRow.created_at rs"
  by (simp add: transform_trade_def)

lemma GET_Table:
  "GET (Table rows)
     = \<lparr> http_status = 200, body = TradesBody (map transform_trade (closed_trades_query rows)) \<rparr>"
  by (simp add: GET_def)

lemma GET_Throwing:
  "GET Throwing = \<lparr> http_status = 500, body = ErrorBody ''Failed to fetch signal history'' \<rparr>"
  by (simp add: GET_def)

text \<open>
  C10, as stated: a returned trade's pair is \<open>EUR/USD\<close> when the stored pair is
  absent. The row \<open>symbol_only_row\<close> is a closed trade whose JSON object has no \<open>pair\<close>
  but has the symbol \<open>GBP/USD\<close>; the route returns it with the pair \<open>GBP/USD\<close>.
\<close>

theorem signal_history_pair_counterexample:
  "data_field TradeData.pair symbol_only_row = None \<and>
   trades_of (GET (Table [symbol_only_row])) = Some [transform_trade symbol_only_row] \<and>
   TradeResult.pair (transform_trade symbol_only_row) = ''GBP/USD'' \<and>
   TradeResult.pair (transform_trade symbol_only_row) \<noteq> ''EUR/USD''"
  by (simp add: GET_def closed_trades_query_def limit_def order_desc_def eq_filter_def
      symbol_only_row_def transform_trade_def data_field_def)

text \<open>
  C10, amended: every trade returned by the route comes from a row of type \<open>TRADE\<close>
  and status \<open>CLOSED\<close> and carries that status; at most 10 trades are returned (all of
  the matching rows when there are fewer), ordered by \<open>created_at\<close> descending; a
  returned trade's profit is 0 when the stored profit is null; its pair is the
  \<open>pair\<close> of the row's JSON object, else that object's \<open>symbol\<close>, and \<open>EUR/USD\<close>
  when both are absent or empty; on a database error the route returns status 500 with
  the error message and no trades array.
\<close>

theorem signal_history_contract:
  "(\<exists>ts. trades_of (GET (Table rows)) = Some ts \<and>
      http_status (GET (Table rows)) = 200 \<and>
      length ts \<le> 10 \<and>
      length ts = min 10 (length (filter
          (\<lambda>r. row_type r = ''TRADE'' \<and> ExecutionLogRow.status r = ''CLOSED'') rows)) \<and>
      sorted_wrt (\<lambda>a b. a \<ge> b) (map TradeResult.created_at ts) \<and>
      (\<forall>t \<in> set ts. \<exists>r \<in> set rows.
          t = transform_trade r \<and> row_type r = ''TRADE'' \<and>
          ExecutionLogRow.status r = ''CLOSED'' \<and> TradeResult.status t = ''CLOSED'')) \<and>
   (ExecutionLogRow.profit r = None \<longrightarrow> TradeResult.profit (transform_trade r) = 0) \<and>
   TradeResult.pair (transform_trade r)
     = (case data_field TradeData.pair r of
          Some p \<Rightarrow> if p \<noteq> [] then p
                    else or_str (data_field TradeData.symbol r) ''EUR/USD''
        | None \<Rightarrow> or_str (data_field TradeData.symbol r) ''EUR/USD'') \<and>
   (data_field TradeData.pair r = None \<and> data_field TradeData.symbol r = None
      \<longrightarrow> TradeResult.pair (transform_trade r) = ''EUR/USD'') \<and>
   GET (Failing message) = \<lparr> http_status = 500, body = ErrorBody message \<rparr> \<and>
   trades_of (GET (Failing message)) = None"
proof (intro conjI)
  let ?ts = "map transform_trade (closed_trades_query rows)"
  have "trades_of (GET (Table rows)) = Some ?ts" "http_status (GET (Table rows)) = 200"
    by (simp_all add: GET_Table)
  moreover have "length ?ts \<le> 10" "length ?ts = min 10 (length (filter
          (\<lambda>r. row_type r = ''TRADE'' \<and> ExecutionLogRow.status r = ''CLOSED'') rows))"
    by (simp_all add: closed_trades_query_length)
  moreover have "sorted_wrt (\<lambda>a b. a \<ge> b) (map TradeResult.created_at ?ts)"
    by (simp only: transform_trade_created_at closed_trades_query_sorted)
  moreover have "\<forall>t \<in> set ?ts. \<exists>r \<in> set rows.
          t = transform_trade r \<and> row_type r = ''TRADE'' \<and>
          ExecutionLogRow.status r = ''CLOSED'' \<and> TradeResult.status t = ''CLOSED''"
  proof
    fix t assume "t \<in> set ?ts"
    then obtain r where r: "r \<in> set (closed_trades_query rows)" "t = transform_trade r"
      by auto
    from closed_trades_query_set [OF r(1)] r(2)
    show "\<exists>r \<in> set rows. t = transform_trade r \<and> row_type r = ''TRADE'' \<and>
          ExecutionLogRow.status r = ''CLOSED'' \<and> TradeResult.status t = ''CLOSED''"
      by (auto simp: transform_trade_def)
  qed
  ultimately show "\<exists>ts. trades_of (GET (Table rows)) = Some ts \<and>
      http_status (GET (Table rows)) = 200 \<and>
      length ts \<le> 10 \<and>
      length ts = min 10 (length (filter
          (\<lambda>r. row_type r = ''TRADE'' \<and> ExecutionLogRow.status r = ''CLOSED'') rows)) \<and>
      sorted_wrt (\<lambda>a b. a \<ge> b) (map TradeResult.created_at ts) \<and>
      (\<forall>t \<in> set ts. \<exists>r \<in> set rows.
          t = transform_trade r \<and> row_type r = ''TRADE'' \<and>
          ExecutionLogRow.status r = ''CLOSED'' \<and> TradeResult.status t = ''CLOSED'')"
    by blast
next
  show "ExecutionLogRow.profit r = None \<longrightarrow> TradeResult.profit (transform_trade r) = 0"
    by (simp add: transform_trade_def)
next
  show "TradeResult.pair (transform_trade r)
     = (case data_field TradeData.pair r of
          Some p \<Rightarrow> if p \<noteq> [] then p
                    else or_str (data_field TradeData.symbol r) ''EUR/USD''
        | None \<Rightarrow> or_str (data_field TradeData.symbol r) ''EUR/USD'')"
    by (cases "data_field TradeData.pair r"; cases "data_field TradeData.symbol r")
       (simp_all add: transform_trade_def)
next
  show "data_field TradeData.pair r = None \<and> data_field TradeData.symbol r = None
      \<longrightarrow> TradeResult.pair (transform_trade r) = ''EUR/USD''"
    by (simp add: transform_trade_def)
next
  show "GET (Failing message) = \<lparr> http_status = 500, body = ErrorBody message \<rparr>"
    by (simp add: GET_def)
next
  show "trades_of (GET (Failing message)) = None"
    by (simp add: GET_def)
qed

text \<open>The route on a table of two closed trades, for the row without a JSON object,
  and on a failing database.\<close>

theorem signal_history_contract_witness:
  "http_status (GET (Table [symbol_only_row, bare_row])) = 200 \<and>
   (\<exists>ts. trades_of (GET (Table [symbol_only_row, bare_row])) = Some ts \<and> length ts = 2) \<and>
   TradeResult.profit (transform_trade bare_row) = 0 \<and>
   TradeResult.pair (transform_trade bare_row) = ''EUR/USD'' \<and>
   GET (Failing ''connection refused'')
     = \<lparr> http_status = 500, body = ErrorBody ''connection refused'' \<rparr> \<and>
   trades_of (GET (Failing ''connection refused'')) = None"
proof -
  have p: "ExecutionLogRow.profit bare_row = None" by (simp add: bare_row_def)
  have d: "data_field TradeData.pair bare_row = None \<and> data_field TradeData.symbol bare_row = None"
    by (simp add: bare_row_def data_field_def)
  have n: "length (filter (\<lambda>r. row_type r = ''TRADE'' \<and> ExecutionLogRow.status r = ''CLOSED'')
      [symbol_only_row, bare_row]) = 2"
    by (simp add: bare_row_def symbol_only_row_def)
  from signal_history_contract [of "[symbol_only_row, bare_row]" bare_row "''connection refused''"]
  have "(\<exists>ts. trades_of (GET (Table [symbol_only_row, bare_row])) = Some ts \<and> length ts = 2)"
    "http_status (GET (Table [symbol_only_row, bare_row])) = 200"
    "TradeResult.profit (transform_trade bare_row) = 0"
    "TradeResult.pair (transform_trade bare_row) = ''EUR/USD''"
    "GET (Failing ''connection refused'')
       = \<lparr> http_status = 500, body = ErrorBody ''connection refused'' \<rparr>"
    "trades_of (GET (Failing ''connection refused'')) = None"
    using p d n by auto
  then show ?thesis by blast
qed


section \<open>Properties of the trading administration page\<close>

lemma handleSave_config: "config (handleSave p reply) = config p"
  by (cases reply) (auto simp: handleSave_def save_failed_def split: option.splits)

lemma handleSave_originalConfig:
  "originalConfig (handleSave p reply)
     = (if adopted reply then Some (config p) else originalConfig p)"
  by (cases reply rule: adopted.cases)
     (auto simp: handleSave_def save_failed_def split: option.splits)

lemma handleSave_saveResult:
  "\<exists>message. saveResult (handleSave p reply) = Some (adopted reply, message)"
  by (cases reply rule: adopted.cases)
     (auto simp: handleSave_def save_failed_def split: option.splits)

lemma posted_members:
  "member_of (post_body p) ''trading_mode'' = Some (JStr (mode_name (trading_mode (config p))))"
  "member_of (post_body p) ''risk_per_trade'' = Some (json_of_num (risk_per_trade (config p)))"
  "member_of (post_body p) ''max_daily_loss'' = Some (json_of_num (max_daily_loss (config p)))"
  by (simp_all add: post_body_def stringify_config_def)

lemma mode_of_mode_name: "mode_of (Some (JStr (mode_name md))) = Some md"
  by (cases md) simp_all

lemma percent_of_json_of_num:
  "percent_of (Some (json_of_num v)) = (case v of Num x \<Rightarrow> if 0 < x \<and> x \<le> 100 then Some x else None
                                         | _ \<Rightarrow> None)"
  by (cases v) simp_all

lemma percent_of_None_iff: "percent_of (Some (json_of_num v)) = None \<longleftrightarrow> \<not> in_percent_range v"
  by (cases v) simp_all

lemma update_config_rejects:
  assumes "\<not> in_percent_range (risk_per_trade (config p)) \<or>
           \<not> in_percent_range (max_daily_loss (config p))"
  shows "fst (update_config stored (post_body p)) = stored"
    and "\<not> adopted (snd (update_config stored (post_body p)))"
  using assms percent_of_None_iff [of "risk_per_trade (config p)"]
    percent_of_None_iff [of "max_daily_loss (config p)"]
  by (auto simp: update_config_def posted_members mode_of_mode_name simp del: mode_of.simps
      split: option.splits)

lemma update_config_accepts:
  assumes "risk_per_trade (config p) = Num r" "0 < r" "r \<le> 100"
    and "max_daily_loss (config p) = Num l" "0 < l" "l \<le> 100"
  shows "update_config stored (post_body p)
     = (\<lparr> TradingConfig_core.mode = trading_mode (config p), risk_per_trade_pct = r,
          max_daily_loss_pct = l \<rparr>,
        Response True (Some (JObj [(''status'', JStr ''ok'')])))"
  using assms
  by (simp add: update_config_def posted_members mode_of_mode_name del: mode_of.simps)

lemma in_percent_range_Num: "in_percent_range v \<Longrightarrow> \<exists>x. v = Num x \<and> 0 < x \<and> x \<le> 100"
  by (cases v) simp_all

text \<open>
  C4, as stated: a value outside \<open>(0, 100]\<close> is rejected, the stored configuration is
  unchanged, and the value is never silently replaced by a default. On the page that has
  loaded the stored daily loss limit of 5, typing 0 into the field, a value outside the
  interval, puts the default 3 into the posted configuration; the save button is
  enabled, the update is accepted, and the stored limit changes from 5 to 3.
\<close>

theorem config_default_counterexample:
  "\<not> in_percent_range (Num 0) \<and>
   max_daily_loss_pct stored5 = 5 \<and>
   max_daily_loss (config loaded_page) = Num 5 \<and>
   max_daily_loss (config (onChange_max_daily_loss loaded_page (Num 0))) = Num 3 \<and>
   hasChanges (onChange_max_daily_loss loaded_page (Num 0)) \<and>
   snd (save_config (onChange_max_daily_loss loaded_page (Num 0)) stored5)
     = \<lparr> TradingConfig_core.mode = AUTOMATIC, risk_per_trade_pct = 1, max_daily_loss_pct = 3 \<rparr> \<and>
   snd (save_config (onChange_max_daily_loss loaded_page (Num 0)) stored5) \<noteq> stored5 \<and>
   saveResult (fst (save_config (onChange_max_daily_loss loaded_page (Num 0)) stored5))
     = Some (True, JStr ''Configuracoes salvas com sucesso!'')"
  by (simp add: loaded_page_def fetchConfig_ok_def initial_page_def onChange_max_daily_loss_def
      post_body_def stringify_config_def handleSave_def hasChanges_def save_config_def
      update_config_def stored5_def Let_def)

text \<open>
  C4, amended: for every configuration update, if the submitted \<open>risk_per_trade\<close> or
  \<open>max_daily_loss\<close> lies outside \<open>(0, 100]\<close> (a value that is not a finite number
  included), the update is rejected at the configuration boundary and the stored
  configuration is unchanged; the page then keeps the configuration it knows to be
  stored and the edited one, and reports the failure. A submitted configuration with
  both values inside the interval is stored as submitted. An invalid value is never
  clamped into range, and it is replaced by a default in one place only: the page's
  daily loss field turns an entry that parses to 0 or NaN into 3 before it is submitted.
  Every other entry of that field and every entry of the risk slider is submitted as
  parsed. Whatever the reply, \<open>handleSave\<close> leaves the edited configuration as it is,
  and it adopts it as the stored one exactly when the response is ok and its body is
  JSON.
\<close>

theorem config_update_validation:
  "(\<not> in_percent_range (risk_per_trade (config p)) \<or>
    \<not> in_percent_range (max_daily_loss (config p)) \<longrightarrow>
      snd (save_config p stored) = stored \<and>
      originalConfig (fst (save_config p stored)) = originalConfig p \<and>
      config (fst (save_config p stored)) = config p \<and>
      (\<exists>message. saveResult (fst (save_config p stored)) = Some (False, message))) \<and>
   (in_percent_range (risk_per_trade (config p)) \<and>
    in_percent_range (max_daily_loss (config p)) \<longrightarrow>
      TradingConfig_core.mode (snd (save_config p stored)) = trading_mode (config p) \<and>
      Num (risk_per_trade_pct (snd (save_config p stored))) = risk_per_trade (config p) \<and>
      Num (max_daily_loss_pct (snd (save_config p stored))) = max_daily_loss (config p) \<and>
      originalConfig (fst (save_config p stored)) = Some (config p) \<and>
      config (fst (save_config p stored)) = config p) \<and>
   risk_per_trade (config (onChange_risk_per_trade p v)) = v \<and>
   max_daily_loss (config (onChange_risk_per_trade p v)) = max_daily_loss (config p) \<and>
   max_daily_loss (config (onChange_max_daily_loss p v))
     = (if v = NaN \<or> v = Num 0 then Num 3 else v) \<and>
   risk_per_trade (config (onChange_max_daily_loss p v)) = risk_per_trade (config p) \<and>
   config (handleSave p reply) = config p \<and>
   originalConfig (handleSave p reply)
     = (if adopted reply then Some (config p) else originalConfig p) \<and>
   (\<exists>message. saveResult (handleSave p reply) = Some (adopted reply, message))"
proof (intro conjI impI)
  assume bad: "\<not> in_percent_range (risk_per_trade (config p)) \<or>
    \<not> in_percent_range (max_daily_loss (config p))"
  note rej = update_config_rejects [OF bad, of stored]
  show "snd (save_config p stored) = stored"
    using rej(1) by (simp add: save_config_def Let_def)
  show "originalConfig (fst (save_config p stored)) = originalConfig p"
    using rej(2) by (simp add: save_config_def Let_def handleSave_originalConfig)
  show "config (fst (save_config p stored)) = config p"
    by (simp add: save_config_def Let_def handleSave_config)
  show "\<exists>message. saveResult (fst (save_config p stored)) = Some (False, message)"
    using rej(2) handleSave_saveResult [of p "snd (update_config stored (post_body p))"]
    by (simp add: save_config_def Let_def)
next
  assume good: "in_percent_range (risk_per_trade (config p)) \<and>
    in_percent_range (max_daily_loss (config p))"
  then obtain r l where r: "risk_per_trade (config p) = Num r" "0 < r" "r \<le> 100"
    and l: "max_daily_loss (config p) = Num l" "0 < l" "l \<le> 100"
    using in_percent_range_Num by blast
  note acc = update_config_accepts [OF r l, of stored]
  show "TradingConfig_core.mode (snd (save_config p stored)) = trading_mode (config p)"
    "Num (risk_per_trade_pct (snd (save_config p stored))) = risk_per_trade (config p)"
    "Num (max_daily_loss_pct (snd (save_config p stored))) = max_daily_loss (config p)"
    "originalConfig (fst (save_config p stored)) = Some (config p)"
    "config (fst (save_config p stored)) = config p"
    using r(1) l(1)
    by (simp_all add: save_config_def Let_def acc handleSave_originalConfig handleSave_config)
next
  show "risk_per_trade (config (onChange_risk_per_trade p v)) = v"
    "max_daily_loss (config (onChange_risk_per_trade p v)) = max_daily_loss (config p)"
    "risk_per_trade (config (onChange_max_daily_loss p v)) = risk_per_trade (config p)"
    by (simp_all add: onChange_risk_per_trade_def onChange_max_daily_loss_def)
  show "max_daily_loss (config (onChange_max_daily_loss p v))
     = (if v = NaN \<or> v = Num 0 then Num 3 else v)"
    by (cases v) (simp_all add: onChange_max_daily_loss_def)
  show "config (handleSave p reply) = config p"
    by (rule handleSave_config)
  show "originalConfig (handleSave p reply)
     = (if adopted reply then Some (config p) else originalConfig p)"
    by (rule handleSave_originalConfig)
  show "\<exists>message. saveResult (handleSave p reply) = Some (adopted reply, message)"
    by (rule handleSave_saveResult)
qed

text \<open>Typing 150 into the daily loss field and -7 into the risk slider and saving:
  both updates are rejected and the stored configuration stays. A response that is ok
  but whose body is not JSON is not adopted.\<close>

theorem config_update_validation_witness:
  "max_daily_loss (config (onChange_max_daily_loss loaded_page (Num 150))) = Num 150 \<and>
   snd (save_config (onChange_max_daily_loss loaded_page (Num 150)) stored5) = stored5 \<and>
   originalConfig (fst (save_config (onChange_max_daily_loss loaded_page (Num 150)) stored5))
     = originalConfig loaded_page \<and>
   (\<exists>message. saveResult (fst (save_config (onChange_max_daily_loss loaded_page (Num 150)) stored5))
      = Some (False, message)) \<and>
   risk_per_trade (config (onChange_risk_per_trade loaded_page (Num (- 7)))) = Num (- 7) \<and>
   snd (save_config (onChange_risk_per_trade loaded_page (Num (- 7))) stored5) = stored5 \<and>
   snd (save_config loaded_page stored5) = stored5 \<and>
   originalConfig (handleSave (onChange_max_daily_loss loaded_page (Num 4)) (Response True None))
     = originalConfig loaded_page"
proof -
  let ?p150 = "onChange_max_daily_loss loaded_page (Num 150)"
  let ?p7 = "onChange_risk_per_trade loaded_page (Num (- 7))"
  have c: "config loaded_page
      = \<lparr> trading_mode = AUTOMATIC, risk_per_trade = Num 1, max_daily_loss = Num 5 \<rparr>"
    "originalConfig loaded_page
      = Some \<lparr> trading_mode = AUTOMATIC, risk_per_trade = Num 1, max_daily_loss = Num 5 \<rparr>"
    by (simp_all add: loaded_page_def fetchConfig_ok_def)
  have o: "originalConfig ?p150 = originalConfig loaded_page"
    by (simp add: onChange_max_daily_loss_def)
  have o4: "originalConfig (onChange_max_daily_loss loaded_page (Num 4)) = originalConfig loaded_page"
    by (simp add: onChange_max_daily_loss_def)
  have s5: "stored5 = \<lparr> TradingConfig_core.mode = AUTOMATIC, risk_per_trade_pct = 1,
      max_daily_loss_pct = 5 \<rparr>"
    by (simp add: stored5_def)
  from config_update_validation [of loaded_page stored5 "Num 150" "Response True None"]
  have a: "max_daily_loss (config ?p150) = Num 150" "risk_per_trade (config ?p150) = Num 1"
    by (simp_all add: c)
  from config_update_validation [of loaded_page stored5 "Num (- 7)" "Response True None"]
  have b: "risk_per_trade (config ?p7) = Num (- 7)" "max_daily_loss (config ?p7) = Num 5"
    by (simp_all add: c)
  from config_update_validation [of ?p150 stored5 NaN NetworkError] a o
  have r150: "snd (save_config ?p150 stored5) = stored5"
    "originalConfig (fst (save_config ?p150 stored5)) = originalConfig loaded_page"
    "\<exists>message. saveResult (fst (save_config ?p150 stored5)) = Some (False, message)"
    by simp_all
  from config_update_validation [of ?p7 stored5 NaN NetworkError] b
  have r7: "snd (save_config ?p7 stored5) = stored5"
    by simp
  from config_update_validation [of loaded_page stored5 NaN NetworkError] c
  have same: "snd (save_config loaded_page stored5) = stored5"
    by (cases "snd (save_config loaded_page stored5)") (simp add: s5)
  from config_update_validation [of "onChange_max_daily_loss loaded_page (Num 4)" stored5 NaN
      "Response True None"] o4
  have nj: "originalConfig (handleSave (onChange_max_daily_loss loaded_page (Num 4))
      (Response True None)) = originalConfig loaded_page"
    by simp
  from a(1) r150 b(1) r7 same nj show ?thesis by blast
qed


section \<open>Properties of the fusion engine and the execution controller\<close>

lemma score_confidence_bounds:
  "0 \<le> score_confidence k t s m raw"
  "score_confidence k t s m raw \<le> 100"
  "score_confidence k t s m raw \<le> max 0 raw"
  by (auto simp: score_confidence_def Let_def)

text \<open>
  C1. Macro veto precedence: whenever the macro signal's label is the high-risk
  category, \<open>fuse\<close> returns the verdict VETO with no direction, whatever the technical
  and sentiment signals are, and a confidence between 0 and the veto ceiling; with a
  ceiling of at most 30 the confidence is at most 30.
\<close>

theorem macro_veto_precedence:
  assumes "AgentSignal.label m = HIGH_RISK"
  shows "Decision.verdict (fuse k t s m) = VETO \<and>
         Decision.direction (fuse k t s m) = None \<and>
         0 \<le> Decision.confidence (fuse k t s m) \<and>
         Decision.confidence (fuse k t s m) \<le> max 0 (veto_ceiling k) \<and>
         (veto_ceiling k \<le> 30 \<longrightarrow> Decision.confidence (fuse k t s m) \<le> 30)"
proof -
  have c: "Decision.confidence (fuse k t s m) = score_confidence k t s m (veto_ceiling k)"
    using assms by (simp add: fuse_def Let_def)
  have "Decision.verdict (fuse k t s m) = VETO" "Decision.direction (fuse k t s m) = None"
    using assms by (simp_all add: fuse_def Let_def)
  moreover have "0 \<le> Decision.confidence (fuse k t s m)"
    "Decision.confidence (fuse k t s m) \<le> max 0 (veto_ceiling k)"
    unfolding c by (rule score_confidence_bounds)+
  ultimately show ?thesis by auto
qed

text \<open>A bullish technical signal and a strongly positive sentiment under a
  high-risk macro signal.\<close>

theorem macro_veto_precedence_witness:
  "Decision.verdict (fuse policy30 (agent_signal TECHNICAL BULLISH 0.8)
      (agent_signal SENTIMENT NEUTRAL 0.6) (agent_signal MACRO HIGH_RISK 1)) = VETO \<and>
   Decision.direction (fuse policy30 (agent_signal TECHNICAL BULLISH 0.8)
      (agent_signal SENTIMENT NEUTRAL 0.6) (agent_signal MACRO HIGH_RISK 1)) = None \<and>
   Decision.confidence (fuse policy30 (agent_signal TECHNICAL BULLISH 0.8)
      (agent_signal SENTIMENT NEUTRAL 0.6) (agent_signal MACRO HIGH_RISK 1)) \<le> 30"
proof -
  have h: "AgentSignal.label (agent_signal MACRO HIGH_RISK 1) = HIGH_RISK"
    by (simp add: agent_signal_def)
  have v: "veto_ceiling policy30 \<le> 30" by (simp add: policy30_def)
  from macro_veto_precedence [OF h, of policy30 "agent_signal TECHNICAL BULLISH 0.8"
      "agent_signal SENTIMENT NEUTRAL 0.6"] v
  show ?thesis by simp
qed

lemma fuse_entry_long:
  "Decision.verdict (fuse policy30 (agent_signal TECHNICAL BULLISH 0.8)
      (agent_signal SENTIMENT NEUTRAL 0.6) (agent_signal MACRO LOW_RISK 0)) = ENTRY \<and>
   Decision.direction (fuse policy30 (agent_signal TECHNICAL BULLISH 0.8)
      (agent_signal SENTIMENT NEUTRAL 0.6) (agent_signal MACRO LOW_RISK 0)) = Some LONG"
  by (simp add: fuse_def Let_def policy30_def agent_signal_def technical_lean_def
      sentiment_lean_def)

text \<open>
  C2. Circuit breaker with inclusive boundary: when the verdict is ENTRY, the mode is
  AUTOMATIC and the daily profit-and-loss percentage is at or below the negated daily
  loss limit, \<open>execute\<close> submits no order and builds no record, the outcome is a forced
  hold, and automation is flagged paused.
\<close>

theorem circuit_breaker_inclusive:
  assumes "Decision.verdict decision = ENTRY"
    and "TradingConfig_core.mode cfg = AUTOMATIC"
    and "daily_pnl_pct account \<le> - max_daily_loss_pct cfg"
  shows "submitted (execute decision cfg account ctx broker) = [] \<and>
         execution_record (execute decision cfg account ctx broker) = None \<and>
         forced_hold (execute decision cfg account ctx broker) \<and>
         automation_paused (execute decision cfg account ctx broker)"
  using assms by (simp add: execute_def breaker_tripped_def no_execution_def)

text \<open>An ENTRY decision on an account whose daily loss equals the limit of 3 percent
  exactly.\<close>

theorem circuit_breaker_inclusive_witness:
  "submitted (execute (fuse policy30 (agent_signal TECHNICAL BULLISH 0.8)
       (agent_signal SENTIMENT NEUTRAL 0.6) (agent_signal MACRO LOW_RISK 0))
     automatic3 (account_at (- 3)) eurusd_context accepting_broker) = [] \<and>
   execution_record (execute (fuse policy30 (agent_signal TECHNICAL BULLISH 0.8)
       (agent_signal SENTIMENT NEUTRAL 0.6) (agent_signal MACRO LOW_RISK 0))
     automatic3 (account_at (- 3)) eurusd_context accepting_broker) = None \<and>
   forced_hold (execute (fuse policy30 (agent_signal TECHNICAL BULLISH 0.8)
       (agent_signal SENTIMENT NEUTRAL 0.6) (agent_signal MACRO LOW_RISK 0))
     automatic3 (account_at (- 3)) eurusd_context accepting_broker) \<and>
   automation_paused (execute (fuse policy30 (agent_signal TECHNICAL BULLISH 0.8)
       (agent_signal SENTIMENT NEUTRAL 0.6) (agent_signal MACRO LOW_RISK 0))
     automatic3 (account_at (- 3)) eurusd_context accepting_broker)"
proof -
  have m: "TradingConfig_core.mode automatic3 = AUTOMATIC" by (simp add: automatic3_def)
  have b: "daily_pnl_pct (account_at (- 3)) \<le> - max_daily_loss_pct automatic3"
    by (simp add: account_at_def automatic3_def)
  show ?thesis
    by (rule circuit_breaker_inclusive [OF conjunct1 [OF fuse_entry_long] m b])
qed

lemma execute_record_iff:
  "execution_record (execute decision cfg account ctx broker) \<noteq> None \<longleftrightarrow>
     Decision.verdict decision = ENTRY \<and> TradingConfig_core.mode cfg = AUTOMATIC \<and>
     \<not> breaker_tripped cfg account"
  by (auto simp: execute_def no_execution_def Let_def split: option.splits BrokerReply.splits)

text \<open>
  C3. ExecutionRecord existence invariant: a cycle appends exactly one Decision, the
  one \<open>fuse\<close> produced, to the history, and it appends an ExecutionRecord if and only if
  that decision's verdict is ENTRY, the mode is AUTOMATIC and the daily-loss circuit
  breaker is not tripped; otherwise the execution records are unchanged.
\<close>

theorem execution_record_invariant:
  "decisions (run_cycle k cfg account ctx broker t s m h) = decisions h @ [fuse k t s m] \<and>
   length (decisions (run_cycle k cfg account ctx broker t s m h)) = length (decisions h) + 1 \<and>
   ((\<exists>r. executions (run_cycle k cfg account ctx broker t s m h) = executions h @ [r])
      \<longleftrightarrow> Decision.verdict (fuse k t s m) = ENTRY \<and> TradingConfig_core.mode cfg = AUTOMATIC
           \<and> \<not> breaker_tripped cfg account) \<and>
   (executions (run_cycle k cfg account ctx broker t s m h) = executions h
      \<longleftrightarrow> \<not> (Decision.verdict (fuse k t s m) = ENTRY \<and> TradingConfig_core.mode cfg = AUTOMATIC
           \<and> \<not> breaker_tripped cfg account))"
proof -
  let ?d = "fuse k t s m"
  let ?o = "if Decision.verdict ?d = ENTRY then execute ?d cfg account ctx broker else no_execution"
  have ex: "executions (run_cycle k cfg account ctx broker t s m h)
      = executions h @ (case execution_record ?o of None \<Rightarrow> [] | Some r \<Rightarrow> [r])"
    by (simp add: run_cycle_def Let_def)
  have iff: "execution_record ?o \<noteq> None \<longleftrightarrow>
     Decision.verdict ?d = ENTRY \<and> TradingConfig_core.mode cfg = AUTOMATIC \<and>
     \<not> breaker_tripped cfg account"
    using execute_record_iff [of ?d cfg account ctx broker] by (simp add: no_execution_def)
  have d: "decisions (run_cycle k cfg account ctx broker t s m h) = decisions h @ [?d]"
    by (simp add: run_cycle_def Let_def)
  show ?thesis
  proof (cases "execution_record ?o")
    case None
    with ex iff d show ?thesis by simp
  next
    case (Some r)
    with ex iff d show ?thesis by simp
  qed
qed

text \<open>One cycle on an empty history: with a daily loss of 1 percent a record is
  written, with a daily loss at the limit none is, and a decision is written both
  times.\<close>

theorem execution_record_invariant_witness:
  "length (decisions (run_cycle policy30 automatic3 (account_at (- 1)) eurusd_context
      accepting_broker (agent_signal TECHNICAL BULLISH 0.8) (agent_signal SENTIMENT NEUTRAL 0.6)
      (agent_signal MACRO LOW_RISK 0) empty_history)) = 1 \<and>
   (\<exists>r. executions (run_cycle policy30 automatic3 (account_at (- 1)) eurusd_context
      accepting_broker (agent_signal TECHNICAL BULLISH 0.8) (agent_signal SENTIMENT NEUTRAL 0.6)
      (agent_signal MACRO LOW_RISK 0) empty_history) = [r]) \<and>
   length (decisions (run_cycle policy30 automatic3 (account_at (- 3)) eurusd_context
      accepting_broker (agent_signal TECHNICAL BULLISH 0.8) (agent_signal SENTIMENT NEUTRAL 0.6)
      (agent_signal MACRO LOW_RISK 0) empty_history)) = 1 \<and>
   executions (run_cycle policy30 automatic3 (account_at (- 3)) eurusd_context
      accepting_broker (agent_signal TECHNICAL BULLISH 0.8) (agent_signal SENTIMENT NEUTRAL 0.6)
      (agent_signal MACRO LOW_RISK 0) empty_history) = []"
proof -
  have m: "TradingConfig_core.mode automatic3 = AUTOMATIC" by (simp add: automatic3_def)
  have ok: "\<not> breaker_tripped automatic3 (account_at (- 1))"
    by (simp add: breaker_tripped_def account_at_def automatic3_def)
  have tripped: "breaker_tripped automatic3 (account_at (- 3))"
    by (simp add: breaker_tripped_def account_at_def automatic3_def)
  have e: "decisions empty_history = []" "executions empty_history = []"
    by (simp_all add: empty_history_def)
  from execution_record_invariant [of policy30 automatic3 "account_at (- 1)" eurusd_context
      accepting_broker "agent_signal TECHNICAL BULLISH 0.8" "agent_signal SENTIMENT NEUTRAL 0.6"
      "agent_signal MACRO LOW_RISK 0" empty_history]
    execution_record_invariant [of policy30 automatic3 "account_at (- 3)" eurusd_context
      accepting_broker "agent_signal TECHNICAL BULLISH 0.8" "agent_signal SENTIMENT NEUTRAL 0.6"
      "agent_signal MACRO LOW_RISK 0" empty_history]
    fuse_entry_long m ok tripped e
  show ?thesis by simp
qed

end
